theory Spec2Isabelle
  imports Main
begin

section \<open>The paradigm analyzer page: catalogues, selection state, recommendation\<close>

text \<open>
  A shallow embedding of \<^verbatim>\<open>src/app/page.tsx\<close>: the two module-level catalogues
  (\<^verbatim>\<open>scenarios\<close>, \<^verbatim>\<open>criteria\<close>), the three pieces of component state of
  \<^verbatim>\<open>Home\<close>, and the values and handlers that \<^verbatim>\<open>Home\<close> computes from them.
  The markup and styling of the page are not modelled.
\<close>

subsection \<open>Data model\<close>

text \<open>
  The union type \<^verbatim>\<open>'oop' | 'functional' | 'procedural' | 'hybrid'\<close> of the field
  \<^verbatim>\<open>Scenario.recommendation\<close>.
\<close>

datatype RecommendationKind = Oop | Functional | Procedural | Hybrid

text \<open>
  The interface \<^verbatim>\<open>Scenario\<close> and its nested \<^verbatim>\<open>codeExample\<close> object, whose three
  fields are optional. Two records cannot share a field name, and \<^verbatim>\<open>id\<close> is a HOL
  constant: the fields \<^verbatim>\<open>id\<close>, \<^verbatim>\<open>description\<close> and \<^verbatim>\<open>recommendation\<close> of a scenario
  carry the suffix \<open>_s\<close>, the fields \<^verbatim>\<open>id\<close> and \<^verbatim>\<open>description\<close> of a criterion the
  suffix \<open>_c\<close>.
\<close>

record CodeExample =
  oop :: "string option"
  alternative :: "string option"
  alternativeLabel :: "string option"

record Scenario =
  id_s :: string
  title :: string
  description_s :: string
  requirements :: "string list"
  recommendation_s :: RecommendationKind
  reason :: string
  codeExample :: CodeExample

text \<open>
  The elements of \<^verbatim>\<open>criteria\<close>. The array has no type annotation, so TypeScript infers
  \<^verbatim>\<open>favor: string\<close>: the field is a string here too, and the code compares it with
  \<^verbatim>\<open>===\<close> against string literals.
\<close>

record Criterion =
  id_c :: string
  label :: string
  description_c :: string
  favor :: string

text \<open>The object literal \<^verbatim>\<open>{ paradigm: ..., color: ... }\<close> that the engine returns.\<close>

record Recommendation =
  paradigm :: string
  color :: string

subsection \<open>The catalogues\<close>

text \<open>
  Both arrays are transcribed in full, in source order. A template literal that spans
  several lines is written as the concatenation of its lines, each ending in the
  newline character; the escapes \<^verbatim>\<open>\`\<close> and \<^verbatim>\<open>\$\<close> of the source stand for the
  plain characters.
\<close>

definition scenarios :: "Scenario list" where
  \<open>scenarios = [
    \<lparr> id_s = ''game-entities'',
      title = ''Game with Multiple Entity Types'',
      description_s = ''Building a game with players, enemies, NPCs, each with shared behaviors (move, attack) but unique implementations.'',
      requirements = [
        ''State encapsulation per entity'',
        ''Polymorphic behavior'',
        ''Inheritance/composition needed'',
        ''Complex entity relationships''
      ],
      recommendation_s = Oop,
      reason = ''OOP excels here due to polymorphism, encapsulation, and the natural modeling of entities as objects with state and behavior. Inheritance or composition patterns provide code reuse.'',
      codeExample = \<lparr>
        oop = Some (''class Entity {\<newline>'' @
           ''  constructor(name, health) {\<newline>'' @
           ''    this.name = name;\<newline>'' @
           ''    this.health = health;\<newline>'' @
           ''  }\<newline>'' @
           ''\<newline>'' @
           ''  attack(target) {\<newline>'' @
           ''    console.log(`${this.name} attacks ${target.name}`);\<newline>'' @
           ''  }\<newline>'' @
           ''}\<newline>'' @
           ''\<newline>'' @
           ''class Player extends Entity {\<newline>'' @
           ''  constructor(name, health, level) {\<newline>'' @
           ''    super(name, health);\<newline>'' @
           ''    this.level = level;\<newline>'' @
           ''  }\<newline>'' @
           ''\<newline>'' @
           ''  attack(target) {\<newline>'' @
           ''    const damage = this.level * 10;\<newline>'' @
           ''    target.health -= damage;\<newline>'' @
           ''    super.attack(target);\<newline>'' @
           ''  }\<newline>'' @
           ''}\<newline>'' @
           ''\<newline>'' @
           ''class Enemy extends Entity {\<newline>'' @
           ''  attack(target) {\<newline>'' @
           ''    const damage = 5;\<newline>'' @
           ''    target.health -= damage;\<newline>'' @
           ''    super.attack(target);\<newline>'' @
           ''  }\<newline>'' @
           ''}\<newline>'' @
           ''\<newline>'' @
           ''const player = new Player("Hero", 100, 5);\<newline>'' @
           ''const enemy = new Enemy("Goblin", 50);\<newline>'' @
           ''player.attack(enemy); // Polymorphic behavior''),
        alternative = Some (''// Functional approach - more verbose for this use case\<newline>'' @
           ''const createEntity = (name, health) => ({\<newline>'' @
           ''  name,\<newline>'' @
           ''  health\<newline>'' @
           ''});\<newline>'' @
           ''\<newline>'' @
           ''const attack = (attacker, target, damage) => ({\<newline>'' @
           ''  ...target,\<newline>'' @
           ''  health: target.health - damage\<newline>'' @
           ''});\<newline>'' @
           ''\<newline>'' @
           ''const playerAttack = (player, target) => {\<newline>'' @
           ''  const damage = player.level * 10;\<newline>'' @
           ''  return attack(player, target, damage);\<newline>'' @
           ''};\<newline>'' @
           ''\<newline>'' @
           ''const player = { ...createEntity("Hero", 100), level: 5 };\<newline>'' @
           ''const enemy = createEntity("Goblin", 50);\<newline>'' @
           ''const updatedEnemy = playerAttack(player, enemy);''),
        alternativeLabel = Some ''Functional''
      \<rparr>
    \<rparr>,
    \<lparr> id_s = ''data-transformation'',
      title = ''Data Processing Pipeline'',
      description_s = ''Processing a list of user records - filtering, mapping, aggregating results.'',
      requirements = [
        ''Stateless transformations'',
        ''Chainable operations'',
        ''No complex entity relationships'',
        ''Pure functions preferred''
      ],
      recommendation_s = Functional,
      reason = ''Functional programming is superior for data transformations: immutability prevents bugs, composition is natural, and operations are easily testable and parallelizable.'',
      codeExample = \<lparr>
        oop = Some (''class UserProcessor {\<newline>'' @
           ''  constructor(users) {\<newline>'' @
           ''    this.users = users;\<newline>'' @
           ''  }\<newline>'' @
           ''\<newline>'' @
           ''  filterActive() {\<newline>'' @
           ''    this.users = this.users.filter(u => u.active);\<newline>'' @
           ''    return this;\<newline>'' @
           ''  }\<newline>'' @
           ''\<newline>'' @
           ''  mapToNames() {\<newline>'' @
           ''    this.users = this.users.map(u => u.name);\<newline>'' @
           ''    return this;\<newline>'' @
           ''  }\<newline>'' @
           ''\<newline>'' @
           ''  getResult() {\<newline>'' @
           ''    return this.users;\<newline>'' @
           ''  }\<newline>'' @
           ''}\<newline>'' @
           ''\<newline>'' @
           ''const processor = new UserProcessor(users);\<newline>'' @
           ''const result = processor.filterActive().mapToNames().getResult();''),
        alternative = Some (''// Functional approach - cleaner and more composable\<newline>'' @
           ''const activeUsers = users => users.filter(u => u.active);\<newline>'' @
           ''const toNames = users => users.map(u => u.name);\<newline>'' @
           ''const getActiveNames = users => toNames(activeUsers(users));\<newline>'' @
           ''\<newline>'' @
           ''const result = getActiveNames(users);\<newline>'' @
           ''\<newline>'' @
           ''// Or with composition:\<newline>'' @
           ''const pipe = (...fns) => x => fns.reduce((v, f) => f(v), x);\<newline>'' @
           ''const process = pipe(activeUsers, toNames);\<newline>'' @
           ''const result = process(users);''),
        alternativeLabel = Some ''Functional (Better)''
      \<rparr>
    \<rparr>,
    \<lparr> id_s = ''ui-components'',
      title = ''Reusable UI Components'',
      description_s = ''Building a component library with buttons, inputs, modals that share styling and behavior.'',
      requirements = [
        ''Component composition'',
        ''State management'',
        ''Prop inheritance'',
        ''Lifecycle management''
      ],
      recommendation_s = Hybrid,
      reason = ''Modern frameworks use hybrid approaches: functional components for rendering with hooks for state (React), or class-based with reactivity (Vue). OOP principles apply to architecture, but implementation is often functional.'',
      codeExample = \<lparr>
        oop = Some (''// React Class Component (older OOP style)\<newline>'' @
           ''class Button extends React.Component {\<newline>'' @
           ''  constructor(props) {\<newline>'' @
           ''    super(props);\<newline>'' @
           ''    this.state = { clicked: false };\<newline>'' @
           ''  }\<newline>'' @
           ''\<newline>'' @
           ''  handleClick = () => {\<newline>'' @
           ''    this.setState({ clicked: true });\<newline>'' @
           ''    this.props.onClick?.();\<newline>'' @
           ''  }\<newline>'' @
           ''\<newline>'' @
           ''  render() {\<newline>'' @
           ''    return (\<newline>'' @
           ''      <button onClick={this.handleClick}>\<newline>'' @
           ''        {this.props.children}\<newline>'' @
           ''      </button>\<newline>'' @
           ''    );\<newline>'' @
           ''  }\<newline>'' @
           ''}''),
        alternative = Some (''// Modern Functional Component (hybrid approach)\<newline>'' @
           ''import { useState } from \'react\';\<newline>'' @
           ''\<newline>'' @
           ''function Button({ children, onClick }) {\<newline>'' @
           ''  const [clicked, setClicked] = useState(false);\<newline>'' @
           ''\<newline>'' @
           ''  const handleClick = () => {\<newline>'' @
           ''    setClicked(true);\<newline>'' @
           ''    onClick?.();\<newline>'' @
           ''  };\<newline>'' @
           ''\<newline>'' @
           ''  return (\<newline>'' @
           ''    <button onClick={handleClick}>\<newline>'' @
           ''      {children}\<newline>'' @
           ''    </button>\<newline>'' @
           ''  );\<newline>'' @
           ''}''),
        alternativeLabel = Some ''Functional/Hybrid (Modern)''
      \<rparr>
    \<rparr>,
    \<lparr> id_s = ''payment-system'',
      title = ''Payment Processing System'',
      description_s = ''System handling multiple payment methods (credit card, PayPal, crypto) with validation, processing, and refunds.'',
      requirements = [
        ''Multiple implementations of same interface'',
        ''Strategy pattern needed'',
        ''Complex business rules'',
        ''State management per transaction''
      ],
      recommendation_s = Oop,
      reason = ''OOP shines with the Strategy pattern. Each payment method implements a common interface, allowing runtime selection. Encapsulation keeps payment logic isolated and secure.'',
      codeExample = \<lparr>
        oop = Some (''interface PaymentMethod {\<newline>'' @
           ''  process(amount: number): Promise<boolean>;\<newline>'' @
           ''  refund(transactionId: string): Promise<boolean>;\<newline>'' @
           ''}\<newline>'' @
           ''\<newline>'' @
           ''class CreditCardPayment implements PaymentMethod {\<newline>'' @
           ''  async process(amount: number) {\<newline>'' @
           ''    // Validate card, charge amount\<newline>'' @
           ''    return true;\<newline>'' @
           ''  }\<newline>'' @
           ''\<newline>'' @
           ''  async refund(transactionId: string) {\<newline>'' @
           ''    // Process refund\<newline>'' @
           ''    return true;\<newline>'' @
           ''  }\<newline>'' @
           ''}\<newline>'' @
           ''\<newline>'' @
           ''class PayPalPayment implements PaymentMethod {\<newline>'' @
           ''  async process(amount: number) {\<newline>'' @
           ''    // PayPal API call\<newline>'' @
           ''    return true;\<newline>'' @
           ''  }\<newline>'' @
           ''\<newline>'' @
           ''  async refund(transactionId: string) {\<newline>'' @
           ''    return true;\<newline>'' @
           ''  }\<newline>'' @
           ''}\<newline>'' @
           ''\<newline>'' @
           ''class PaymentProcessor {\<newline>'' @
           ''  constructor(private method: PaymentMethod) {}\<newline>'' @
           ''\<newline>'' @
           ''  async checkout(amount: number) {\<newline>'' @
           ''    return await this.method.process(amount);\<newline>'' @
           ''  }\<newline>'' @
           ''}''),
        alternative = Some (''// Functional approach - less type-safe\<newline>'' @
           ''const creditCardPayment = {\<newline>'' @
           ''  process: async (amount) => { /* ... */ return true; },\<newline>'' @
           ''  refund: async (txId) => { /* ... */ return true; }\<newline>'' @
           ''};\<newline>'' @
           ''\<newline>'' @
           ''const paypalPayment = {\<newline>'' @
           ''  process: async (amount) => { /* ... */ return true; },\<newline>'' @
           ''  refund: async (txId) => { /* ... */ return true; }\<newline>'' @
           ''};\<newline>'' @
           ''\<newline>'' @
           ''const checkout = (method, amount) => method.process(amount);\<newline>'' @
           ''\<newline>'' @
           ''// Works but loses compile-time safety and documentation''),
        alternativeLabel = Some ''Functional''
      \<rparr>
    \<rparr>,
    \<lparr> id_s = ''math-utilities'',
      title = ''Math Utility Functions'',
      description_s = ''Collection of mathematical operations: factorial, fibonacci, prime checking, etc.'',
      requirements = [
        ''Pure functions'',
        ''No state needed'',
        ''Independent operations'',
        ''Simple input/output''
      ],
      recommendation_s = Functional,
      reason = ''Pure utility functions don\'t need classes. Functional approach is simpler, more testable, and easier to understand. No state to manage or objects to instantiate.'',
      codeExample = \<lparr>
        oop = Some (''// Unnecessary OOP wrapper\<newline>'' @
           ''class MathUtils {\<newline>'' @
           ''  static factorial(n) {\<newline>'' @
           ''    return n <= 1 ? 1 : n * this.factorial(n - 1);\<newline>'' @
           ''  }\<newline>'' @
           ''\<newline>'' @
           ''  static isPrime(n) {\<newline>'' @
           ''    if (n <= 1) return false;\<newline>'' @
           ''    for (let i = 2; i < n; i++) {\<newline>'' @
           ''      if (n % i === 0) return false;\<newline>'' @
           ''    }\<newline>'' @
           ''    return true;\<newline>'' @
           ''  }\<newline>'' @
           ''}\<newline>'' @
           ''\<newline>'' @
           ''const result = MathUtils.factorial(5);''),
        alternative = Some (''// Simpler functional approach\<newline>'' @
           ''const factorial = n => n <= 1 ? 1 : n * factorial(n - 1);\<newline>'' @
           ''\<newline>'' @
           ''const isPrime = n => {\<newline>'' @
           ''  if (n <= 1) return false;\<newline>'' @
           ''  for (let i = 2; i < n; i++) {\<newline>'' @
           ''    if (n % i === 0) return false;\<newline>'' @
           ''  }\<newline>'' @
           ''  return true;\<newline>'' @
           ''};\<newline>'' @
           ''\<newline>'' @
           ''const result = factorial(5);\<newline>'' @
           ''\<newline>'' @
           ''// Or with composition:\<newline>'' @
           ''const pipe = (...fns) => x => fns.reduce((v, f) => f(v), x);\<newline>'' @
           ''const compute = pipe(factorial, x => x * 2);''),
        alternativeLabel = Some ''Functional (Better)''
      \<rparr>
    \<rparr>,
    \<lparr> id_s = ''database-models'',
      title = ''Database ORM Models'',
      description_s = ''Defining database schemas with relationships, validation, and query methods.'',
      requirements = [
        ''Data validation'',
        ''Relationships between models'',
        ''Instance and static methods'',
        ''Lifecycle hooks''
      ],
      recommendation_s = Oop,
      reason = ''ORMs leverage OOP to map database tables to objects. Each row becomes an instance with methods. Relationships (hasMany, belongsTo) are natural. Active Record pattern fits perfectly.'',
      codeExample = \<lparr>
        oop = Some (''class User {\<newline>'' @
           ''  constructor(data) {\<newline>'' @
           ''    this.id = data.id;\<newline>'' @
           ''    this.email = data.email;\<newline>'' @
           ''    this.name = data.name;\<newline>'' @
           ''  }\<newline>'' @
           ''\<newline>'' @
           ''  static async findById(id) {\<newline>'' @
           ''    const data = await db.query(\'SELECT * FROM users WHERE id = ?\', [id]);\<newline>'' @
           ''    return new User(data);\<newline>'' @
           ''  }\<newline>'' @
           ''\<newline>'' @
           ''  async save() {\<newline>'' @
           ''    if (this.id) {\<newline>'' @
           ''      await db.query(\'UPDATE users SET name = ?, email = ? WHERE id = ?\',\<newline>'' @
           ''        [this.name, this.email, this.id]);\<newline>'' @
           ''    } else {\<newline>'' @
           ''      const result = await db.query(\'INSERT INTO users (name, email) VALUES (?, ?)\',\<newline>'' @
           ''        [this.name, this.email]);\<newline>'' @
           ''      this.id = result.insertId;\<newline>'' @
           ''    }\<newline>'' @
           ''  }\<newline>'' @
           ''\<newline>'' @
           ''  async posts() {\<newline>'' @
           ''    return Post.findByUserId(this.id);\<newline>'' @
           ''  }\<newline>'' @
           ''}\<newline>'' @
           ''\<newline>'' @
           ''const user = await User.findById(1);\<newline>'' @
           ''user.name = "New Name";\<newline>'' @
           ''await user.save();''),
        alternative = Some (''// Functional approach - loses cohesion\<newline>'' @
           ''const findUserById = async (id) => {\<newline>'' @
           ''  return await db.query(\'SELECT * FROM users WHERE id = ?\', [id]);\<newline>'' @
           ''};\<newline>'' @
           ''\<newline>'' @
           ''const saveUser = async (user) => {\<newline>'' @
           ''  if (user.id) {\<newline>'' @
           ''    await db.query(\'UPDATE users SET name = ?, email = ? WHERE id = ?\',\<newline>'' @
           ''      [user.name, user.email, user.id]);\<newline>'' @
           ''  } else {\<newline>'' @
           ''    const result = await db.query(\'INSERT INTO users (name, email) VALUES (?, ?)\',\<newline>'' @
           ''      [user.name, user.email]);\<newline>'' @
           ''    return { ...user, id: result.insertId };\<newline>'' @
           ''  }\<newline>'' @
           ''};\<newline>'' @
           ''\<newline>'' @
           ''const getUserPosts = async (userId) => {\<newline>'' @
           ''  return await findPostsByUserId(userId);\<newline>'' @
           ''};''),
        alternativeLabel = Some ''Functional''
      \<rparr>
    \<rparr>,
    \<lparr> id_s = ''api-client'',
      title = ''REST API Client'',
      description_s = ''Client library for interacting with an API - authentication, request building, error handling.'',
      requirements = [
        ''State management (auth tokens)'',
        ''Request configuration'',
        ''Middleware/interceptors'',
        ''Chainable API''
      ],
      recommendation_s = Oop,
      reason = ''API clients benefit from OOP: instance holds auth state, methods are discoverable via IDE autocomplete, and configuration is encapsulated. Builder pattern enables fluent interfaces.'',
      codeExample = \<lparr>
        oop = Some (''class APIClient {\<newline>'' @
           ''  constructor(baseURL) {\<newline>'' @
           ''    this.baseURL = baseURL;\<newline>'' @
           ''    this.token = null;\<newline>'' @
           ''    this.headers = {};\<newline>'' @
           ''  }\<newline>'' @
           ''\<newline>'' @
           ''  authenticate(token) {\<newline>'' @
           ''    this.token = token;\<newline>'' @
           ''    this.headers[\'Authorization\'] = `Bearer ${token}`;\<newline>'' @
           ''    return this;\<newline>'' @
           ''  }\<newline>'' @
           ''\<newline>'' @
           ''  setHeader(key, value) {\<newline>'' @
           ''    this.headers[key] = value;\<newline>'' @
           ''    return this;\<newline>'' @
           ''  }\<newline>'' @
           ''\<newline>'' @
           ''  async get(endpoint) {\<newline>'' @
           ''    const response = await fetch(`${this.baseURL}${endpoint}`, {\<newline>'' @
           ''      headers: this.headers\<newline>'' @
           ''    });\<newline>'' @
           ''    return response.json();\<newline>'' @
           ''  }\<newline>'' @
           ''\<newline>'' @
           ''  async post(endpoint, data) {\<newline>'' @
           ''    const response = await fetch(`${this.baseURL}${endpoint}`, {\<newline>'' @
           ''      method: \'POST\',\<newline>'' @
           ''      headers: { ...this.headers, \'Content-Type\': \'application/json\' },\<newline>'' @
           ''      body: JSON.stringify(data)\<newline>'' @
           ''    });\<newline>'' @
           ''    return response.json();\<newline>'' @
           ''  }\<newline>'' @
           ''}\<newline>'' @
           ''\<newline>'' @
           ''const client = new APIClient(\'https://api.example.com\');\<newline>'' @
           ''client.authenticate(\'token123\').setHeader(\'X-Custom\', \'value\');\<newline>'' @
           ''const data = await client.get(\'/users\');''),
        alternative = Some (''// Functional approach - less discoverable\<newline>'' @
           ''const createClient = (baseURL) => ({\<newline>'' @
           ''  baseURL,\<newline>'' @
           ''  token: null,\<newline>'' @
           ''  headers: {}\<newline>'' @
           ''});\<newline>'' @
           ''\<newline>'' @
           ''const authenticate = (client, token) => ({\<newline>'' @
           ''  ...client,\<newline>'' @
           ''  token,\<newline>'' @
           ''  headers: { ...client.headers, \'Authorization\': `Bearer ${token}` }\<newline>'' @
           ''});\<newline>'' @
           ''\<newline>'' @
           ''const get = async (client, endpoint) => {\<newline>'' @
           ''  const response = await fetch(`${client.baseURL}${endpoint}`, {\<newline>'' @
           ''    headers: client.headers\<newline>'' @
           ''  });\<newline>'' @
           ''  return response.json();\<newline>'' @
           ''};\<newline>'' @
           ''\<newline>'' @
           ''let client = createClient(\'https://api.example.com\');\<newline>'' @
           ''client = authenticate(client, \'token123\');\<newline>'' @
           ''const data = await get(client, \'/users\');''),
        alternativeLabel = Some ''Functional''
      \<rparr>
    \<rparr>
  ]\<close>

definition criteria :: "Criterion list" where
  \<open>criteria = [
    \<lparr> id_c = ''state'',
      label = ''Complex State Management'',
      description_c = ''Does each entity need to maintain its own state over time?'',
      favor = ''oop'' \<rparr>,
    \<lparr> id_c = ''polymorphism'',
      label = ''Polymorphic Behavior'',
      description_c = ''Do you need multiple implementations of the same interface/contract?'',
      favor = ''oop'' \<rparr>,
    \<lparr> id_c = ''inheritance'',
      label = ''Shared Behavior via Inheritance'',
      description_c = ''Do entities share common behavior that can be inherited or composed?'',
      favor = ''oop'' \<rparr>,
    \<lparr> id_c = ''encapsulation'',
      label = ''Data + Behavior Encapsulation'',
      description_c = ''Should data and the functions that operate on it be bundled together?'',
      favor = ''oop'' \<rparr>,
    \<lparr> id_c = ''pure'',
      label = ''Pure Transformations'',
      description_c = ''Are operations stateless transformations with no side effects?'',
      favor = ''functional'' \<rparr>,
    \<lparr> id_c = ''composition'',
      label = ''Function Composition'',
      description_c = ''Can the solution be built by composing small, independent functions?'',
      favor = ''functional'' \<rparr>,
    \<lparr> id_c = ''immutability'',
      label = ''Immutability Important'',
      description_c = ''Is immutable data flow critical to prevent bugs?'',
      favor = ''functional'' \<rparr>,
    \<lparr> id_c = ''simple'',
      label = ''Simple Utilities'',
      description_c = ''Are these simple utility functions without complex relationships?'',
      favor = ''procedural'' \<rparr>
  ]\<close>

subsection \<open>JavaScript sets of strings\<close>

text \<open>
  A JavaScript \<^verbatim>\<open>Set\<close> holds each element once and iterates in insertion order. It is
  modelled as the list of its elements in that order; a list that represents a set is
  \<^const>\<open>distinct\<close>. \<^verbatim>\<open>new Set()\<close> is \<open>[]\<close> and \<^verbatim>\<open>new Set(s)\<close> copies \<open>s\<close>,
  which for a value is \<open>s\<close> itself.
\<close>

type_synonym 'a js_set = "'a list"

definition set_has :: "'a js_set \<Rightarrow> 'a \<Rightarrow> bool" where
  "set_has s x = (x \<in> set s)"

text \<open>\<^verbatim>\<open>Set.prototype.add\<close> appends the element when it is absent, and does nothing otherwise.\<close>

definition set_add :: "'a js_set \<Rightarrow> 'a \<Rightarrow> 'a js_set" where
  "set_add s x = (if x \<in> set s then s else s @ [x])"

text \<open>\<^verbatim>\<open>Set.prototype.delete\<close> removes the element; afterwards \<^verbatim>\<open>has\<close> is false for it.\<close>

definition set_delete :: "'a js_set \<Rightarrow> 'a \<Rightarrow> 'a js_set" where
  "set_delete s x = removeAll x s"

definition set_size :: "'a js_set \<Rightarrow> nat" where
  "set_size s = length s"

text \<open>\<^verbatim>\<open>Array.from(s)\<close>: the elements in iteration order.\<close>

definition Array_from :: "'a js_set \<Rightarrow> 'a list" where
  "Array_from s = s"

subsection \<open>Component state\<close>

text \<open>
  The three \<^verbatim>\<open>useState\<close> cells of \<^verbatim>\<open>Home\<close> and their initial values. An event
  handler that calls several setters is one transition of the record: React applies the
  updates of a handler together, before the next render.
\<close>

record HomeState =
  selectedScenario :: string
  selectedCriteria :: "string js_set"
  showComparison :: bool

definition initialState :: HomeState where
  "initialState = \<lparr> selectedScenario = '''', selectedCriteria = [], showComparison = False \<rparr>"

subsection \<open>Scenario lookup\<close>

text \<open>
  \<^verbatim>\<open>const scenario = scenarios.find(s => s.id === selectedScenario)\<close>.
  \<^verbatim>\<open>Array.prototype.find\<close> returns the first element that satisfies the predicate, or
  \<^verbatim>\<open>undefined\<close>, which is \<open>None\<close> here.
\<close>

definition scenario :: "string \<Rightarrow> Scenario option" where
  "scenario selectedScenario' = find (\<lambda>s. id_s s = selectedScenario') scenarios"

subsection \<open>The recommendation engine\<close>

text \<open>
  The three scores. Each filters \<^verbatim>\<open>Array.from(selectedCriteria)\<close> with the callback
  \<^verbatim>\<open>id => { const criterion = criteria.find(c => c.id === id); return criterion?.favor === lit; }\<close>
  and takes the length. Optional chaining makes \<^verbatim>\<open>criterion?.favor\<close> \<^verbatim>\<open>undefined\<close> for an
  id that is not in the catalogue (\<open>None\<close> here), and \<^verbatim>\<open>undefined === lit\<close> is false.
\<close>

definition oopScore :: "string js_set \<Rightarrow> nat" where
  "oopScore selectedCriteria' =
     length (filter (\<lambda>i.
         let criterion = find (\<lambda>c. id_c c = i) criteria
         in map_option favor criterion = Some ''oop'')
       (Array_from selectedCriteria'))"

definition functionalScore :: "string js_set \<Rightarrow> nat" where
  "functionalScore selectedCriteria' =
     length (filter (\<lambda>i.
         let criterion = find (\<lambda>c. id_c c = i) criteria
         in map_option favor criterion = Some ''functional'')
       (Array_from selectedCriteria'))"

definition proceduralScore :: "string js_set \<Rightarrow> nat" where
  "proceduralScore selectedCriteria' =
     length (filter (\<lambda>i.
         let criterion = find (\<lambda>c. id_c c = i) criteria
         in map_option favor criterion = Some ''procedural'')
       (Array_from selectedCriteria'))"

text \<open>
  \<^verbatim>\<open>getRecommendationFromCriteria\<close>: the three scores, then the \<^verbatim>\<open>if\<close>/\<^verbatim>\<open>else if\<close>
  chain in source order. The function reads \<^verbatim>\<open>selectedCriteria\<close> from the enclosing
  component; here it is the argument.
\<close>

definition getRecommendationFromCriteria :: "string js_set \<Rightarrow> Recommendation" where
  "getRecommendationFromCriteria selectedCriteria' =
     (let oopScore' = oopScore selectedCriteria';
          functionalScore' = functionalScore selectedCriteria';
          proceduralScore' = proceduralScore selectedCriteria'
      in if oopScore' > functionalScore' \<and> oopScore' > proceduralScore' then
           \<lparr> paradigm = ''Object-Oriented'', color = ''#3b82f6'' \<rparr>
         else if functionalScore' > oopScore' then
           \<lparr> paradigm = ''Functional'', color = ''#10b981'' \<rparr>
         else if proceduralScore' > 0 \<and> proceduralScore' \<ge> oopScore' then
           \<lparr> paradigm = ''Procedural'', color = ''#f59e0b'' \<rparr>
         else
           \<lparr> paradigm = ''Hybrid Approach'', color = ''#8b5cf6'' \<rparr>)"

text \<open>
  \<^verbatim>\<open>const recommendation = selectedCriteria.size > 0 ? getRecommendationFromCriteria() : null\<close>.
\<close>

definition recommendation :: "string js_set \<Rightarrow> Recommendation option" where
  "recommendation selectedCriteria' =
     (if set_size selectedCriteria' > 0 then Some (getRecommendationFromCriteria selectedCriteria')
      else None)"

subsection \<open>Event handlers\<close>

text \<open>
  \<^verbatim>\<open>toggleCriterion\<close> copies the set, removes the id when the copy has it and adds it
  otherwise, and stores the copy.
\<close>

definition toggleCriterion :: "string \<Rightarrow> HomeState \<Rightarrow> HomeState" where
  "toggleCriterion i st =
     (let newSet = selectedCriteria st;
          newSet = (if set_has newSet i then set_delete newSet i else set_add newSet i)
      in st\<lparr>selectedCriteria := newSet\<rparr>)"

text \<open>
  The \<^verbatim>\<open>onClick\<close> of a scenario button:
  \<^verbatim>\<open>setSelectedScenario(s.id); setShowComparison(false);\<close>.
\<close>

definition selectScenario :: "string \<Rightarrow> HomeState \<Rightarrow> HomeState" where
  "selectScenario i st = st\<lparr>selectedScenario := i, showComparison := False\<rparr>"

text \<open>The comparison button: \<^verbatim>\<open>setShowComparison(!showComparison)\<close>.\<close>

definition toggleComparison :: "HomeState \<Rightarrow> HomeState" where
  "toggleComparison st = st\<lparr>showComparison := \<not> showComparison st\<rparr>"

section \<open>Properties\<close>

subsection \<open>Facts about the catalogues\<close>

text \<open>
  The id, recommendation and favor columns of the two arrays, and the lookup that the
  score callbacks perform, as a table.
\<close>

lemma criteria_ids:
  "map id_c criteria = [''state'', ''polymorphism'', ''inheritance'', ''encapsulation'',
     ''pure'', ''composition'', ''immutability'', ''simple'']"
  by (simp add: criteria_def)

lemma criteria_favors:
  "map favor criteria = [''oop'', ''oop'', ''oop'', ''oop'',
     ''functional'', ''functional'', ''functional'', ''procedural'']"
  by (simp add: criteria_def)

lemma scenarios_ids:
  "map id_s scenarios = [''game-entities'', ''data-transformation'', ''ui-components'',
     ''payment-system'', ''math-utilities'', ''database-models'', ''api-client'']"
  by (simp add: scenarios_def)

lemma scenarios_recommendations:
  "map recommendation_s scenarios = [Oop, Functional, Hybrid, Oop, Functional, Oop, Oop]"
  by (simp add: scenarios_def)

lemma favor_lookup:
  "map_option favor (find (\<lambda>c. id_c c = i) criteria) =
     (if i \<in> {''state'', ''polymorphism'', ''inheritance'', ''encapsulation''} then Some ''oop''
      else if i \<in> {''pure'', ''composition'', ''immutability''} then Some ''functional''
      else if i = ''simple'' then Some ''procedural''
      else None)"
  by (simp add: criteria_def)

lemma unknown_lookup:
  assumes "i \<notin> set (map id_c criteria)"
  shows "find (\<lambda>c. id_c c = i) criteria = None"
  using assms by (auto simp: find_None_iff)

subsection \<open>Facts about the scores\<close>

lemma scores_Nil: "oopScore [] = 0" "functionalScore [] = 0" "proceduralScore [] = 0"
  by (simp_all add: oopScore_def functionalScore_def proceduralScore_def Array_from_def)

lemma scores_Cons:
  "oopScore (i # S) =
     (if i \<in> {''state'', ''polymorphism'', ''inheritance'', ''encapsulation''} then 1 else 0)
     + oopScore S"
  "functionalScore (i # S) =
     (if i \<in> {''pure'', ''composition'', ''immutability''} then 1 else 0) + functionalScore S"
  "proceduralScore (i # S) = (if i = ''simple'' then 1 else 0) + proceduralScore S"
  unfolding oopScore_def functionalScore_def proceduralScore_def Array_from_def Let_def
    favor_lookup
  by simp_all

lemma scores_snoc_unknown:
  assumes "i \<notin> set (map id_c criteria)"
  shows "oopScore (S @ [i]) = oopScore S"
    and "functionalScore (S @ [i]) = functionalScore S"
    and "proceduralScore (S @ [i]) = proceduralScore S"
  using unknown_lookup [OF assms]
  by (simp_all add: oopScore_def functionalScore_def proceduralScore_def Array_from_def)

lemma scores_set_eq:
  assumes "distinct S" "distinct T" "set S = set T"
  shows "oopScore S = oopScore T"
    and "functionalScore S = functionalScore T"
    and "proceduralScore S = proceduralScore T"
  using assms
  by (simp_all add: oopScore_def functionalScore_def proceduralScore_def Array_from_def
      distinct_length_filter)

lemma paradigm_getRecommendation:
  "paradigm (getRecommendationFromCriteria S) =
     (if oopScore S > functionalScore S \<and> oopScore S > proceduralScore S then ''Object-Oriented''
      else if functionalScore S > oopScore S then ''Functional''
      else if proceduralScore S > 0 \<and> proceduralScore S \<ge> oopScore S then ''Procedural''
      else ''Hybrid Approach'')"
  by (simp add: getRecommendationFromCriteria_def Let_def)

lemma recommendation_nonempty:
  "S \<noteq> [] \<Longrightarrow> recommendation S = Some (getRecommendationFromCriteria S)"
  by (simp add: recommendation_def set_size_def)

subsection \<open>Facts about the engine, the lookup and the toggle\<close>

lemma getRecommendation_cases:
  "getRecommendationFromCriteria S \<in>
     {\<lparr> paradigm = ''Object-Oriented'', color = ''#3b82f6'' \<rparr>,
      \<lparr> paradigm = ''Functional'', color = ''#10b981'' \<rparr>,
      \<lparr> paradigm = ''Procedural'', color = ''#f59e0b'' \<rparr>,
      \<lparr> paradigm = ''Hybrid Approach'', color = ''#8b5cf6'' \<rparr>}"
  by (simp add: getRecommendationFromCriteria_def Let_def)

lemma getRecommendation_scores:
  assumes "oopScore S = oopScore T" "functionalScore S = functionalScore T"
    "proceduralScore S = proceduralScore T"
  shows "getRecommendationFromCriteria S = getRecommendationFromCriteria T"
  using assms by (simp add: getRecommendationFromCriteria_def)

lemma scenarios_ids_distinct: "distinct (map id_s scenarios)"
  by (simp add: scenarios_ids)

lemma criteria_ids_distinct: "distinct (map id_c criteria)"
  by (simp add: criteria_ids)

lemma toggled_set:
  "set (selectedCriteria (toggleCriterion x st)) =
     (if x \<in> set (selectedCriteria st) then set (selectedCriteria st) - {x}
      else insert x (set (selectedCriteria st)))"
  by (simp add: toggleCriterion_def set_has_def set_delete_def set_add_def)


subsection \<open>The decision policy\<close>

text \<open>
  Claim C1. For every non-empty selection set the engine evaluates its rules in this
  order, the first match winning: Object-Oriented when \<open>oopScore\<close> exceeds both other
  scores; else Functional when \<open>functionalScore\<close> exceeds \<open>oopScore\<close> (\<open>proceduralScore\<close>
  is not consulted); else Procedural when \<open>proceduralScore\<close> is positive and at least
  \<open>oopScore\<close>; else Hybrid Approach.
\<close>

theorem rule_order:
  assumes "S \<noteq> []"
  shows "map_option paradigm (recommendation S) = Some
     (if oopScore S > functionalScore S \<and> oopScore S > proceduralScore S then ''Object-Oriented''
      else if functionalScore S > oopScore S then ''Functional''
      else if proceduralScore S > 0 \<and> proceduralScore S \<ge> oopScore S then ''Procedural''
      else ''Hybrid Approach'')"
  using assms by (simp add: recommendation_nonempty paradigm_getRecommendation)

text \<open>
  The selection \<open>{pure, simple}\<close> shows the second rule winning although
  \<open>proceduralScore \<ge> functionalScore\<close>.
\<close>

theorem rule_order_witness:
  "[''pure'', ''simple''] \<noteq> []
   \<and> functionalScore [''pure'', ''simple''] > oopScore [''pure'', ''simple'']
   \<and> proceduralScore [''pure'', ''simple''] \<ge> functionalScore [''pure'', ''simple'']
   \<and> map_option paradigm (recommendation [''pure'', ''simple'']) = Some ''Functional''"
  using rule_order [of "[''pure'', ''simple'']"]
  by (simp add: scores_Cons scores_Nil)

text \<open>
  Claim C2, as stated: whenever the three scores are equal and positive, the result is
  Hybrid Approach. It fails at the selection \<open>{state, pure, simple}\<close>, where the three
  scores are 1 and the third rule matches.
\<close>

theorem all_equal_positive_counterexample:
  "distinct [''state'', ''pure'', ''simple'']
   \<and> oopScore [''state'', ''pure'', ''simple''] = functionalScore [''state'', ''pure'', ''simple'']
   \<and> functionalScore [''state'', ''pure'', ''simple''] = proceduralScore [''state'', ''pure'', ''simple'']
   \<and> 0 < oopScore [''state'', ''pure'', ''simple'']
   \<and> map_option paradigm (recommendation [''state'', ''pure'', ''simple'']) \<noteq> Some ''Hybrid Approach''"
  by (simp add: recommendation_nonempty paradigm_getRecommendation scores_Cons scores_Nil)

text \<open>
  Claim C2, amended: whenever the three scores are equal and positive, the result is
  Procedural with its colour \<open>#f59e0b\<close>; and for a non-empty selection the result is
  Hybrid Approach exactly when \<open>oopScore = functionalScore\<close> and \<open>proceduralScore\<close> is
  zero or below \<open>oopScore\<close>.
\<close>

theorem all_equal_positive_procedural:
  "(oopScore S = functionalScore S \<and> functionalScore S = proceduralScore S \<and> 0 < oopScore S
      \<longrightarrow> recommendation S = Some \<lparr> paradigm = ''Procedural'', color = ''#f59e0b'' \<rparr>)
   \<and> (S \<noteq> [] \<longrightarrow>
        (map_option paradigm (recommendation S) = Some ''Hybrid Approach'')
        = (oopScore S = functionalScore S
           \<and> (proceduralScore S = 0 \<or> proceduralScore S < oopScore S)))"
proof (intro conjI impI)
  assume eq: "oopScore S = functionalScore S \<and> functionalScore S = proceduralScore S
    \<and> 0 < oopScore S"
  then have "S \<noteq> []"
    by (auto simp: scores_Nil)
  then have "recommendation S = Some (getRecommendationFromCriteria S)"
    by (rule recommendation_nonempty)
  also from eq have "getRecommendationFromCriteria S
      = \<lparr> paradigm = ''Procedural'', color = ''#f59e0b'' \<rparr>"
    by (simp add: getRecommendationFromCriteria_def Let_def)
  finally show "recommendation S = Some \<lparr> paradigm = ''Procedural'', color = ''#f59e0b'' \<rparr>" .
next
  assume "S \<noteq> []"
  then have unfold: "map_option paradigm (recommendation S)
      = Some (paradigm (getRecommendationFromCriteria S))"
    by (simp add: recommendation_nonempty)
  show "(map_option paradigm (recommendation S) = Some ''Hybrid Approach'')
      = (oopScore S = functionalScore S
         \<and> (proceduralScore S = 0 \<or> proceduralScore S < oopScore S))"
    unfolding unfold option.inject paradigm_getRecommendation
    by (auto split: if_splits)
qed

theorem all_equal_positive_procedural_witness:
  "oopScore [''state'', ''pure'', ''simple''] = functionalScore [''state'', ''pure'', ''simple'']
   \<and> functionalScore [''state'', ''pure'', ''simple''] = proceduralScore [''state'', ''pure'', ''simple'']
   \<and> 0 < oopScore [''state'', ''pure'', ''simple'']
   \<and> recommendation [''state'', ''pure'', ''simple'']
       = Some \<lparr> paradigm = ''Procedural'', color = ''#f59e0b'' \<rparr>
   \<and> [''state'', ''pure''] \<noteq> []
   \<and> oopScore [''state'', ''pure''] = functionalScore [''state'', ''pure'']
   \<and> proceduralScore [''state'', ''pure''] = 0
   \<and> map_option paradigm (recommendation [''state'', ''pure'']) = Some ''Hybrid Approach''"
  using all_equal_positive_procedural [of "[''state'', ''pure'', ''simple'']"]
    all_equal_positive_procedural [of "[''state'', ''pure'']"]
  by (simp add: scores_Cons scores_Nil)


subsection \<open>The empty selection and unknown ids\<close>

text \<open>
  Claim C3. When the set of selected criterion ids is empty, the recommendation is
  nothing (\<^verbatim>\<open>null\<close>), and only a non-empty set produces a recommendation. The page
  starts in that state.
\<close>

theorem empty_selection_no_recommendation:
  "recommendation [] = None
   \<and> (recommendation S = None) = (S = [])
   \<and> recommendation (selectedCriteria initialState) = None"
  by (simp add: recommendation_def set_size_def initialState_def)

text \<open>
  Claim C4, as stated: for every selection set \<open>S\<close> and every id outside the criteria
  catalogue, the recommendation of \<open>S \<union> {id}\<close> equals that of \<open>S\<close>. It fails at the empty
  set: the recommendation of \<open>\<emptyset>\<close> is nothing, and that of \<open>{unknown}\<close> is Hybrid
  Approach, since the set is no longer empty and all three scores are 0.
\<close>

theorem unknown_id_counterexample:
  "''unknown'' \<notin> set (map id_c criteria)
   \<and> recommendation [] = None
   \<and> recommendation (set_add [] ''unknown'')
       = Some \<lparr> paradigm = ''Hybrid Approach'', color = ''#8b5cf6'' \<rparr>
   \<and> recommendation (set_add [] ''unknown'') \<noteq> recommendation []"
  by (simp add: criteria_ids recommendation_def set_size_def set_add_def
      getRecommendationFromCriteria_def scores_Cons scores_Nil)

text \<open>
  Claim C4, amended. An id outside the criteria catalogue contributes to none of the
  three scores: for every selection set \<open>S\<close>, adding it leaves the three scores and the
  value of \<^verbatim>\<open>getRecommendationFromCriteria\<close> unchanged, and for every non-empty \<open>S\<close> the
  recommendation of \<open>S \<union> {id}\<close> equals that of \<open>S\<close>; so adding an unknown id to an
  oop-favouring singleton gives the result of the singleton.
\<close>

theorem unknown_id_ignored:
  assumes "i \<notin> set (map id_c criteria)"
  shows "oopScore (set_add S i) = oopScore S
    \<and> functionalScore (set_add S i) = functionalScore S
    \<and> proceduralScore (set_add S i) = proceduralScore S
    \<and> getRecommendationFromCriteria (set_add S i) = getRecommendationFromCriteria S
    \<and> (S \<noteq> [] \<longrightarrow> recommendation (set_add S i) = recommendation S)"
proof -
  have scores: "oopScore (set_add S i) = oopScore S"
    "functionalScore (set_add S i) = functionalScore S"
    "proceduralScore (set_add S i) = proceduralScore S"
    using scores_snoc_unknown [OF assms] by (simp_all add: set_add_def)
  then have get: "getRecommendationFromCriteria (set_add S i) = getRecommendationFromCriteria S"
    by (rule getRecommendation_scores)
  have "set_add S i \<noteq> []" if "S \<noteq> []"
    using that by (simp add: set_add_def)
  with get have "recommendation (set_add S i) = recommendation S" if "S \<noteq> []"
    using that by (simp add: recommendation_nonempty)
  with scores get show ?thesis by simp
qed

theorem unknown_id_ignored_witness:
  "''unknown'' \<notin> set (map id_c criteria)
   \<and> set_add [''state''] ''unknown'' = [''state'', ''unknown'']
   \<and> oopScore [''state'', ''unknown''] = 1
   \<and> [''state''] \<noteq> []
   \<and> recommendation [''state'', ''unknown''] = recommendation [''state'']
   \<and> recommendation [''state''] = Some \<lparr> paradigm = ''Object-Oriented'', color = ''#3b82f6'' \<rparr>"
  using unknown_id_ignored [of "''unknown''" "[''state'']"]
  by (simp add: criteria_ids set_add_def recommendation_nonempty
      getRecommendationFromCriteria_def scores_Cons scores_Nil)

subsection \<open>Totality, determinism and colours\<close>

text \<open>
  Claim C5. The recommendation is a total function of the selection set alone: every
  input list, whatever ids it holds, yields either nothing (the empty selection) or one of
  the four results, and two lists that represent the same set, in any order, yield the
  same paradigm and colour.
\<close>

theorem recommendation_total_order_independent:
  "(S = [] \<and> recommendation S = None
      \<or> S \<noteq> [] \<and> (\<exists>r. recommendation S = Some r \<and> r \<in>
       {\<lparr> paradigm = ''Object-Oriented'', color = ''#3b82f6'' \<rparr>,
        \<lparr> paradigm = ''Functional'', color = ''#10b981'' \<rparr>,
        \<lparr> paradigm = ''Procedural'', color = ''#f59e0b'' \<rparr>,
        \<lparr> paradigm = ''Hybrid Approach'', color = ''#8b5cf6'' \<rparr>}))
   \<and> (distinct S \<and> distinct T \<and> set S = set T \<longrightarrow> recommendation S = recommendation T)"
proof (intro conjI impI)
  show "S = [] \<and> recommendation S = None
      \<or> S \<noteq> [] \<and> (\<exists>r. recommendation S = Some r \<and> r \<in>
       {\<lparr> paradigm = ''Object-Oriented'', color = ''#3b82f6'' \<rparr>,
        \<lparr> paradigm = ''Functional'', color = ''#10b981'' \<rparr>,
        \<lparr> paradigm = ''Procedural'', color = ''#f59e0b'' \<rparr>,
        \<lparr> paradigm = ''Hybrid Approach'', color = ''#8b5cf6'' \<rparr>})"
  proof (cases "S = []")
    case True
    then show ?thesis by (simp add: recommendation_def set_size_def)
  next
    case False
    then show ?thesis
      using getRecommendation_cases [of S] by (simp add: recommendation_nonempty)
  qed
next
  assume same: "distinct S \<and> distinct T \<and> set S = set T"
  then have "getRecommendationFromCriteria S = getRecommendationFromCriteria T"
    by (intro getRecommendation_scores scores_set_eq) simp_all
  moreover from same have "length S = length T"
    by (metis distinct_card)
  ultimately show "recommendation S = recommendation T"
    by (simp add: recommendation_def set_size_def)
qed

theorem recommendation_total_order_independent_witness:
  "[''simple'', ''bogus'', ''state''] \<noteq> []
   \<and> distinct [''simple'', ''bogus'', ''state''] \<and> distinct [''state'', ''simple'', ''bogus'']
   \<and> set [''simple'', ''bogus'', ''state''] = set [''state'', ''simple'', ''bogus'']
   \<and> recommendation [''simple'', ''bogus'', ''state''] = recommendation [''state'', ''simple'', ''bogus'']
   \<and> recommendation [''simple'', ''bogus'', ''state'']
       = Some \<lparr> paradigm = ''Procedural'', color = ''#f59e0b'' \<rparr>"
  using recommendation_total_order_independent
    [of "[''simple'', ''bogus'', ''state'']" "[''state'', ''simple'', ''bogus'']"]
  by (simp add: recommendation_nonempty getRecommendationFromCriteria_def scores_Cons scores_Nil
      insert_commute)

text \<open>
  Claim C6. Every recommendation carries the fixed colour of its paradigm:
  Object-Oriented with blue (\<open>#3b82f6\<close>), Functional with green (\<open>#10b981\<close>), Procedural
  with amber (\<open>#f59e0b\<close>) and Hybrid Approach with purple (\<open>#8b5cf6\<close>).
\<close>

theorem fixed_colors:
  assumes "recommendation S = Some r"
  shows "(paradigm r = ''Object-Oriented'' \<and> color r = ''#3b82f6'')
       \<or> (paradigm r = ''Functional'' \<and> color r = ''#10b981'')
       \<or> (paradigm r = ''Procedural'' \<and> color r = ''#f59e0b'')
       \<or> (paradigm r = ''Hybrid Approach'' \<and> color r = ''#8b5cf6'')"
proof -
  from assms have "r = getRecommendationFromCriteria S"
    by (simp add: recommendation_def split: if_splits)
  with getRecommendation_cases [of S] show ?thesis
    by auto
qed

theorem fixed_colors_witness:
  "recommendation [''pure''] = Some \<lparr> paradigm = ''Functional'', color = ''#10b981'' \<rparr>
   \<and> paradigm \<lparr> paradigm = ''Functional'', color = ''#10b981'' \<rparr> = ''Functional''
   \<and> color \<lparr> paradigm = ''Functional'', color = ''#10b981'' \<rparr> = ''#10b981''"
proof -
  have h: "recommendation [''pure''] = Some \<lparr> paradigm = ''Functional'', color = ''#10b981'' \<rparr>"
    by (simp add: recommendation_nonempty getRecommendationFromCriteria_def scores_Cons scores_Nil)
  from fixed_colors [OF h] h show ?thesis by simp
qed

subsection \<open>The scenario catalogue\<close>

text \<open>
  Claim C7. Scenario lookup returns, for every id of the catalogue, the record with that
  id (the only one, as ids are unique), and nothing for every other id; being
  \<^verbatim>\<open>Array.prototype.find\<close>, it has no failing case.
\<close>

theorem scenario_lookup:
  "(i \<in> set (map id_s scenarios) \<longrightarrow>
      (\<exists>s. scenario i = Some s \<and> s \<in> set scenarios \<and> id_s s = i
         \<and> (\<forall>s' \<in> set scenarios. id_s s' = i \<longrightarrow> s' = s)))
   \<and> (i \<notin> set (map id_s scenarios) \<longrightarrow> scenario i = None)"
proof (intro conjI impI)
  assume "i \<in> set (map id_s scenarios)"
  then have "\<exists>s. s \<in> set scenarios \<and> id_s s = i"
    by auto
  then obtain s where found: "scenario i = Some s"
    unfolding scenario_def by (cases "find (\<lambda>s. id_s s = i) scenarios") (auto simp: find_None_iff)
  then have s: "s \<in> set scenarios" "id_s s = i"
    unfolding scenario_def by (auto simp: find_Some_iff)
  have "s' = s" if "s' \<in> set scenarios" "id_s s' = i" for s'
    using scenarios_ids_distinct s that by (auto simp: distinct_map dest: inj_onD)
  with found s show "\<exists>s. scenario i = Some s \<and> s \<in> set scenarios \<and> id_s s = i
      \<and> (\<forall>s' \<in> set scenarios. id_s s' = i \<longrightarrow> s' = s)"
    by blast
next
  assume "i \<notin> set (map id_s scenarios)"
  then show "scenario i = None"
    unfolding scenario_def by (auto simp: find_None_iff)
qed

theorem scenario_lookup_witness:
  "''ui-components'' \<in> set (map id_s scenarios)
   \<and> map_option id_s (scenario ''ui-components'') = Some ''ui-components''
   \<and> map_option recommendation_s (scenario ''ui-components'') = Some Hybrid
   \<and> ''compiler'' \<notin> set (map id_s scenarios)
   \<and> scenario ''compiler'' = None
   \<and> scenario (selectedScenario initialState) = None"
proof -
  have "map_option recommendation_s (scenario ''ui-components'') = Some Hybrid"
    by (simp add: scenario_def scenarios_def)
  with scenario_lookup [of "''ui-components''"] scenario_lookup [of "''compiler''"]
    scenario_lookup [of "''''"]
  show ?thesis
    by (auto simp: scenarios_ids initialState_def)
qed

text \<open>
  Claim C8. The catalogues satisfy their invariants: scenario ids are pairwise distinct and
  every scenario's recommendation is one of the four values (which the type of the field
  already says); criterion ids are pairwise distinct and every criterion's favor is one of
  \<open>oop\<close>, \<open>functional\<close>, \<open>procedural\<close>, never \<open>hybrid\<close>.
\<close>

theorem catalogue_invariants:
  "distinct (map id_s scenarios)
   \<and> (\<forall>s \<in> set scenarios. recommendation_s s \<in> {Oop, Functional, Procedural, Hybrid})
   \<and> distinct (map id_c criteria)
   \<and> (\<forall>c \<in> set criteria. favor c \<in> {''oop'', ''functional'', ''procedural''})
   \<and> (\<forall>c \<in> set criteria. favor c \<noteq> ''hybrid'')"
proof -
  have "recommendation_s s \<in> {Oop, Functional, Procedural, Hybrid}" for s
    by (cases "recommendation_s s") simp_all
  moreover have "\<forall>l \<in> set (map favor criteria). l \<in> {''oop'', ''functional'', ''procedural''}"
    unfolding criteria_favors by simp
  then have favors: "\<forall>c \<in> set criteria. favor c \<in> {''oop'', ''functional'', ''procedural''}"
    by simp
  then have "\<forall>c \<in> set criteria. favor c \<noteq> ''hybrid''"
    by auto
  ultimately show ?thesis
    using favors scenarios_ids_distinct criteria_ids_distinct by blast
qed

theorem catalogue_invariants_witness:
  "criteria ! 7 \<in> set criteria \<and> id_c (criteria ! 7) = ''simple''
   \<and> favor (criteria ! 7) = ''procedural''
   \<and> favor (criteria ! 7) \<in> {''oop'', ''functional'', ''procedural''}
   \<and> favor (criteria ! 7) \<noteq> ''hybrid''
   \<and> scenarios ! 2 \<in> set scenarios \<and> id_s (scenarios ! 2) = ''ui-components''
   \<and> recommendation_s (scenarios ! 2) = Hybrid
   \<and> recommendation_s (scenarios ! 2) \<in> {Oop, Functional, Procedural, Hybrid}"
proof -
  have c: "criteria ! 7 \<in> set criteria" "id_c (criteria ! 7) = ''simple''"
    "favor (criteria ! 7) = ''procedural''"
    by (simp_all add: criteria_def)
  have "length scenarios = 7"
    using arg_cong [OF scenarios_ids, of length] by simp
  then have s: "scenarios ! 2 \<in> set scenarios"
    by simp
  have s': "id_s (scenarios ! 2) = ''ui-components''" "recommendation_s (scenarios ! 2) = Hybrid"
    using arg_cong [OF scenarios_ids, of "\<lambda>xs. xs ! 2"]
      arg_cong [OF scenarios_recommendations, of "\<lambda>xs. xs ! 2"] \<open>length scenarios = 7\<close>
    by simp_all
  from catalogue_invariants c s s' show ?thesis
    by simp
qed

subsection \<open>The event handlers\<close>

text \<open>
  Claim C9. Toggling a criterion id \<open>x\<close> changes the membership of \<open>x\<close> in the selection
  set and of no other id, and toggling \<open>x\<close> twice yields the same set again; the result
  of a toggle has no duplicates when the set before had none. (The second toggle puts
  \<open>x\<close> last in iteration order, which a set does not distinguish.)
\<close>

theorem toggle_involution:
  "(x \<in> set (selectedCriteria (toggleCriterion x st))) = (x \<notin> set (selectedCriteria st))
   \<and> (\<forall>y. y \<noteq> x \<longrightarrow>
        (y \<in> set (selectedCriteria (toggleCriterion x st))) = (y \<in> set (selectedCriteria st)))
   \<and> set (selectedCriteria (toggleCriterion x (toggleCriterion x st))) = set (selectedCriteria st)
   \<and> (distinct (selectedCriteria st) \<longrightarrow> distinct (selectedCriteria (toggleCriterion x st)))"
proof (intro conjI allI impI)
  show "(x \<in> set (selectedCriteria (toggleCriterion x st))) = (x \<notin> set (selectedCriteria st))"
    by (simp add: toggled_set)
  show "(y \<in> set (selectedCriteria (toggleCriterion x st))) = (y \<in> set (selectedCriteria st))"
    if "y \<noteq> x" for y
    using that by (simp add: toggled_set)
  show "set (selectedCriteria (toggleCriterion x (toggleCriterion x st))) = set (selectedCriteria st)"
    by (auto simp: toggled_set)
  show "distinct (selectedCriteria (toggleCriterion x st))" if "distinct (selectedCriteria st)"
    using that
    by (simp add: toggleCriterion_def Let_def set_has_def set_delete_def set_add_def
        distinct_removeAll)
qed

theorem toggle_involution_witness:
  "selectedCriteria (toggleCriterion ''pure'' (initialState\<lparr>selectedCriteria := [''state'', ''pure'', ''simple'']\<rparr>))
     = [''state'', ''simple'']
   \<and> selectedCriteria (toggleCriterion ''pure'' (toggleCriterion ''pure''
        (initialState\<lparr>selectedCriteria := [''state'', ''pure'', ''simple'']\<rparr>)))
     = [''state'', ''simple'', ''pure'']
   \<and> ''simple'' \<noteq> ''pure''
   \<and> ''simple'' \<in> set (selectedCriteria (toggleCriterion ''pure''
        (initialState\<lparr>selectedCriteria := [''state'', ''pure'', ''simple'']\<rparr>)))
   \<and> distinct [''state'', ''pure'', ''simple'']
   \<and> distinct (selectedCriteria (toggleCriterion ''pure''
        (initialState\<lparr>selectedCriteria := [''state'', ''pure'', ''simple'']\<rparr>)))
   \<and> set (selectedCriteria (toggleCriterion ''pure'' (toggleCriterion ''pure''
        (initialState\<lparr>selectedCriteria := [''state'', ''pure'', ''simple'']\<rparr>))))
     = set [''state'', ''pure'', ''simple'']"
  using toggle_involution [of "''pure''"
      "initialState\<lparr>selectedCriteria := [''state'', ''pure'', ''simple'']\<rparr>"]
  by (simp add: toggleCriterion_def set_has_def set_delete_def set_add_def initialState_def
      insert_commute)

text \<open>
  Claim C10. After the scenario-select action \<^verbatim>\<open>showComparison\<close> is false, whatever it
  was before, and the selected criteria are unchanged; the selected scenario is the one
  clicked.
\<close>

theorem select_scenario_hides_comparison:
  "showComparison (selectScenario i st) = False
   \<and> selectedCriteria (selectScenario i st) = selectedCriteria st
   \<and> selectedScenario (selectScenario i st) = i"
  by (simp add: selectScenario_def)

end
